theory Spec2Isabelle
  imports Complex_Main
begin

section \<open>The metal-oxide gas sensor of mox.py\<close>

text \<open>
  Conventions of the embedding. Python floats and numpy float64 values are real numbers
  (rounding is not modelled); Python ints are \<open>int\<close>. An operation that raises returns
  \<open>Inl\<close> of the exception. A numpy division by zero does not raise but yields inf or nan,
  which are not real numbers: it returns \<open>Inl NonFinite\<close>. The object \<open>self\<close> is a record
  passed in and returned; a method that raises returns the object as it stands at the raise.
  The calibration tables of gas_sensor_utils and the files of the gas data directory are
  parameters. Debug drawing has no effect on the sensor and is left out. The function
  \<open>update\<close> is the body of the method: the rate limiter of the base class Sensor, which
  decides when the body runs and with which time step, is not part of these sources.
\<close>

datatype error =
  IndexError | ValueError | ZeroDivisionError | OverflowError
  | FileNotFoundError | AttributeError | NonFinite

type_synonym vec3 = "real \<times> real \<times> real"

subsection \<open>Data\<close>

text \<open>One row of an iteration's filament array: id, x, y, z, sigma.\<close>

record Filament =
  fil_id :: real
  fil_x :: real
  fil_y :: real
  fil_z :: real
  fil_sigma :: real

text \<open>The two header entries read by the concentration formula (element 0 of each).\<close>

record GasDataHead =
  filament_num_moles_of_gas :: real
  num_moles_all_gases_in_cm3 :: real

record EnvSpec =
  env_min :: vec3
  env_max :: vec3
  num_cells :: vec3
  cell_size :: real

text \<open>The occupancy array, indexed \<open>[z, x, y]\<close>, with its shape.\<close>

record OccGrid =
  dim_z :: nat
  dim_x :: nat
  dim_y :: nat
  voxel :: "nat \<Rightarrow> nat \<Rightarrow> nat \<Rightarrow> int"

text \<open>
  The tables imported from gas_sensor_utils, indexed by sensor model (and gas type, and
  position). Their declarations are not part of the sources at hand, so they are parameters;
  their entries are taken to be Python floats.
\<close>

record Calibration =
  R0 :: "int \<Rightarrow> real"
  tau_value :: "int \<Rightarrow> int \<Rightarrow> int \<Rightarrow> real"
  sensitivity_air :: "int \<Rightarrow> real"
  sensitivity_lineloglog :: "int \<Rightarrow> int \<Rightarrow> int \<Rightarrow> real"

text \<open>The gas data directory: the files iteration_N_fil.npy and iteration_N_head.npy.\<close>

record GasDataDir =
  fil_npy :: "int \<Rightarrow> Filament list option"
  head_npy :: "int \<Rightarrow> GasDataHead option"

text \<open>The configuration dictionary; an absent key is \<open>None\<close>.\<close>

record Config =
  cfg_env_spec :: "EnvSpec option"
  cfg_draw :: "bool option"
  cfg_sensor_model :: "int option"
  cfg_gas_type :: "int option"
  cfg_update_rate :: "real option"
  cfg_gas_data_time_step :: "real option"
  cfg_gas_data_start_iter :: "int option"
  cfg_gas_data_stop_iter :: "int option"

text \<open>
  The attributes of a MOX object. \<open>previous_sensor_output\<close> is not set by the constructor:
  \<open>None\<close> is the absent attribute.
\<close>

record MOX =
  env_spec :: EnvSpec
  occ_grid :: OccGrid
  iter_start :: int
  iter_stop :: int
  filament_iter :: int
  update_iter :: int
  update_rate :: real
  gas_data_time_step :: real
  updates_per_gas_iter :: int
  sensor_model :: int
  gas_type :: int
  sensor_output :: real
  gas_conc :: real
  RS_R0 :: real
  first_reading :: bool
  time_tot :: real
  draw_bool :: bool
  previous_sensor_output :: "real option"
  state :: "real list"

text \<open>What a call of update does to the gas data directory and the concentration.\<close>

datatype event = Load_fil int | Load_head int | Recompute

subsection \<open>Construction\<close>

definition config_get :: "'a option \<Rightarrow> 'a \<Rightarrow> 'a" where
  "config_get v d = (case v of None \<Rightarrow> d | Some a \<Rightarrow> a)"

definition is_digit :: "char \<Rightarrow> bool" where
  "is_digit c = (let n = (of_char c :: nat) in 48 \<le> n \<and> n \<le> 57)"

text \<open>\<open>int\<close> of a string of decimal digits.\<close>

definition digits_value :: "string \<Rightarrow> int" where
  "digits_value ds = foldl (\<lambda>a c. 10 * a + (int (of_char c) - 48)) 0 ds"

text \<open>The sort key \<open>int(''.join(filter(str.isdigit, f)))\<close>, for a name with a digit.\<close>

definition file_key :: "string \<Rightarrow> int" where
  "file_key f = digits_value (filter is_digit f)"

text \<open>\<open>re.findall(r'\d+', f)[0]\<close>: the first maximal run of digits.\<close>

definition first_digits :: "string \<Rightarrow> error + string" where
  "first_digits f =
     (let r = takeWhile is_digit (dropWhile (\<lambda>c. \<not> is_digit c) f)
      in if r = [] then Inl IndexError else Inr r)"

text \<open>The stop iteration read from the directory listing, when the configured one is 0.\<close>

definition last_iteration :: "string list \<Rightarrow> error + int" where
  "last_iteration files =
     (if filter (\<lambda>f. filter is_digit f = []) files \<noteq> [] then Inl ValueError
      else if files = [] then Inl IndexError
      else (case first_digits (last (sort_key file_key files)) of
              Inl e \<Rightarrow> Inl e
            | Inr ds \<Rightarrow> Inr (digits_value ds)))"

text \<open>Python's \<open>int\<close> of a float truncates toward zero.\<close>

definition py_int :: "real \<Rightarrow> int" where
  "py_int v = (if 0 \<le> v then \<lfloor>v\<rfloor> else \<lceil>v\<rceil>)"

definition default_env_spec :: EnvSpec where
  "default_env_spec =
     \<lparr>env_min = (0, 0, 0), env_max = (10, 10, 10), num_cells = (50, 50, 50),
      cell_size = 0.2\<rparr>"

text \<open>
  The constructor, given the configuration, the listing of the gas data directory and the
  loaded occupancy array.
\<close>

definition MOX_init :: "Config \<Rightarrow> string list \<Rightarrow> OccGrid \<Rightarrow> error + MOX" where
  "MOX_init config gas_data_files grid =
     (let start = config_get (cfg_gas_data_start_iter config) 0;
          iter_stop_input = config_get (cfg_gas_data_stop_iter config) 0;
          rate = config_get (cfg_update_rate config) 4;
          step = config_get (cfg_gas_data_time_step config) 0.5
      in case (if iter_stop_input = 0 then last_iteration gas_data_files
               else Inr iter_stop_input) of
           Inl e \<Rightarrow> Inl e
         | Inr stop_iter \<Rightarrow>
             Inr \<lparr>env_spec = config_get (cfg_env_spec config) default_env_spec,
                  occ_grid = grid,
                  iter_start = start,
                  iter_stop = stop_iter,
                  filament_iter = start,
                  update_iter = 0,
                  update_rate = rate,
                  gas_data_time_step = step,
                  updates_per_gas_iter = py_int (step * rate) - 1,
                  sensor_model = config_get (cfg_sensor_model config) 0,
                  gas_type = config_get (cfg_gas_type config) 0,
                  sensor_output = 0,
                  gas_conc = 0,
                  RS_R0 = 0,
                  first_reading = True,
                  time_tot = 0,
                  draw_bool = config_get (cfg_draw config) False,
                  previous_sensor_output = None,
                  state = [0, 0, 0]\<rparr>)"

subsection \<open>stop\<close>

definition stop :: "MOX \<Rightarrow> MOX" where
  "stop s =
     s\<lparr>filament_iter := iter_start s,
       sensor_output := 0,
       gas_conc := 0,
       RS_R0 := 0,
       first_reading := True,
       time_tot := 0\<rparr>"

subsection \<open>check_env_for_obstacle3D\<close>

text \<open>\<open>np.linspace(a, b, num)\<close>.\<close>

definition linspace :: "real \<Rightarrow> real \<Rightarrow> int \<Rightarrow> error + real list" where
  "linspace a b num =
     (if num < 0 then Inl ValueError
      else if num = 0 then Inr []
      else if num = 1 then Inr [a]
      else Inr (map (\<lambda>i. a + real i * ((b - a) / real_of_int (num - 1))) [0..<nat num]))"

text \<open>One index of a numpy array axis of the given length: negative indices wrap once.\<close>

definition axis_index :: "nat \<Rightarrow> int \<Rightarrow> error + nat" where
  "axis_index n i =
     (if 0 \<le> i \<and> i < int n then Inr (nat i)
      else if - int n \<le> i \<and> i < 0 then Inr (nat (int n + i))
      else Inl IndexError)"

text \<open>\<open>occ_grid[z_idx, x_idx, y_idx]\<close>.\<close>

definition grid_lookup :: "OccGrid \<Rightarrow> int \<Rightarrow> int \<Rightarrow> int \<Rightarrow> error + int" where
  "grid_lookup g z_idx x_idx y_idx =
     (case axis_index (dim_z g) z_idx of
        Inl e \<Rightarrow> Inl e
      | Inr k \<Rightarrow>
          (case axis_index (dim_x g) x_idx of
             Inl e \<Rightarrow> Inl e
           | Inr i \<Rightarrow>
               (case axis_index (dim_y g) y_idx of
                  Inl e \<Rightarrow> Inl e
                | Inr j \<Rightarrow> Inr (voxel g k i j))))"

text \<open>
  \<open>math.floor((c - env_min)/cell_size)\<close>; with a zero cell size the quotient is inf or nan
  and \<open>math.floor\<close> raises.
\<close>

definition voxel_index :: "real \<Rightarrow> real \<Rightarrow> real \<Rightarrow> error + int" where
  "voxel_index c lo cs =
     (if cs = 0 then Inl (if c - lo = 0 then ValueError else OverflowError)
      else Inr \<lfloor>(c - lo) / cs\<rfloor>)"

text \<open>The loop over the zipped sample points.\<close>

fun scan_points :: "EnvSpec \<Rightarrow> OccGrid \<Rightarrow> vec3 list \<Rightarrow> error + bool" where
  "scan_points env g [] = Inr True"
| "scan_points env g ((px, py, pz) # ps) =
     (case env_min env of (min0, min1, min2) \<Rightarrow>
        (case voxel_index px min0 (cell_size env) of
           Inl e \<Rightarrow> Inl e
         | Inr x_idx \<Rightarrow>
        (case voxel_index py min1 (cell_size env) of
           Inl e \<Rightarrow> Inl e
         | Inr y_idx \<Rightarrow>
        (case voxel_index pz min2 (cell_size env) of
           Inl e \<Rightarrow> Inl e
         | Inr z_idx \<Rightarrow>
        (case grid_lookup g z_idx x_idx y_idx of
           Inl e \<Rightarrow> Inl e
         | Inr v \<Rightarrow> if v \<noteq> 0 then Inr False else scan_points env g ps)))))"

text \<open>\<open>np.linalg.norm((start, end))\<close>: the norm of the two points stacked.\<close>

definition norm_stacked :: "vec3 \<Rightarrow> vec3 \<Rightarrow> real" where
  "norm_stacked start endp =
     (case start of (s0, s1, s2) \<Rightarrow> case endp of (e0, e1, e2) \<Rightarrow>
        sqrt (s0\<^sup>2 + s1\<^sup>2 + s2\<^sup>2 + e0\<^sup>2 + e1\<^sup>2 + e2\<^sup>2))"

text \<open>
  The number of sample points; with a zero cell size the quotient is inf or nan and
  \<open>math.ceil\<close> raises.
\<close>

definition samples :: "EnvSpec \<Rightarrow> vec3 \<Rightarrow> vec3 \<Rightarrow> error + int" where
  "samples env start endp =
     (let dist = norm_stacked start endp
      in if cell_size env = 0 then Inl (if dist = 0 then ValueError else OverflowError)
         else Inr (\<lceil>dist / cell_size env\<rceil> + 1))"

text \<open>The zipped points of the three calls of linspace.\<close>

definition sample_points :: "vec3 \<Rightarrow> vec3 \<Rightarrow> int \<Rightarrow> error + vec3 list" where
  "sample_points start endp n =
     (case start of (s0, s1, s2) \<Rightarrow> case endp of (e0, e1, e2) \<Rightarrow>
        (case linspace s0 e0 n of
           Inl e \<Rightarrow> Inl e
         | Inr x_points \<Rightarrow>
        (case linspace s1 e1 n of
           Inl e \<Rightarrow> Inl e
         | Inr y_points \<Rightarrow>
        (case linspace s2 e2 n of
           Inl e \<Rightarrow> Inl e
         | Inr z_points \<Rightarrow> Inr (zip x_points (zip y_points z_points))))))"

definition check_env_for_obstacle3D ::
  "EnvSpec \<Rightarrow> OccGrid \<Rightarrow> vec3 \<Rightarrow> vec3 \<Rightarrow> error + bool" where
  "check_env_for_obstacle3D env g start endp =
     (case samples env start endp of
        Inl e \<Rightarrow> Inl e
      | Inr n \<Rightarrow>
          (case sample_points start endp n of
             Inl e \<Rightarrow> Inl e
           | Inr ps \<Rightarrow> scan_points env g ps))"

subsection \<open>concentration_from_filament\<close>

text \<open>
  The filament fields and the header entries are numpy values, so a zero divisor gives inf
  or nan instead of raising.
\<close>

definition concentration_from_filament ::
  "vec3 \<Rightarrow> Filament \<Rightarrow> GasDataHead \<Rightarrow> error + real" where
  "concentration_from_filament loc filament head =
     (case loc of (l0, l1, l2) \<Rightarrow>
        (let distance_cm =
               100 * sqrt ((l0 - fil_x filament)\<^sup>2 + (l1 - fil_y filament)\<^sup>2
                           + (l2 - fil_z filament)\<^sup>2)
         in if sqrt (8 * pi ^ 3) * fil_sigma filament ^ 3 = 0
               \<or> 2 * (fil_sigma filament)\<^sup>2 = 0 then Inl NonFinite
            else
              (let num_moles_target_cm3 =
                     (filament_num_moles_of_gas head
                        / (sqrt (8 * pi ^ 3) * fil_sigma filament ^ 3))
                     * exp (- (distance_cm\<^sup>2) / (2 * (fil_sigma filament)\<^sup>2))
               in if num_moles_all_gases_in_cm3 head = 0 then Inl NonFinite
                  else Inr (num_moles_target_cm3 / num_moles_all_gases_in_cm3 head
                            * 1000000))))"

subsection \<open>simulate_mox_as_line_loglog\<close>

text \<open>
  \<open>math.pow\<close>: it raises for a zero base with a negative exponent and for a negative base
  with an exponent that is not an integer.
\<close>

definition math_pow :: "real \<Rightarrow> real \<Rightarrow> error + real" where
  "math_pow b e =
     (if b = 0 then (if e < 0 then Inl ValueError else if e = 0 then Inr 1 else Inr 0)
      else if 0 < b then Inr (b powr e)
      else if of_int \<lfloor>e\<rfloor> = e
        then Inr ((if even \<lfloor>e\<rfloor> then 1 else - 1) * (\<bar>b\<bar> powr e))
      else Inl ValueError)"

definition simulate_mox_as_line_loglog ::
  "Calibration \<Rightarrow> real \<Rightarrow> real \<Rightarrow> MOX \<Rightarrow> MOX \<times> (error + real \<times> real)" where
  "simulate_mox_as_line_loglog cal dt gas_concentration s =
     (let m = sensor_model s; air = sensitivity_air cal m in
      if first_reading s then
        (s\<lparr>previous_sensor_output := Some air, first_reading := False\<rparr>,
         Inr (air * R0 cal m, air))
      else
        (case (if gas_concentration = 0 then Inr air
               else (case math_pow gas_concentration
                            (sensitivity_lineloglog cal m (gas_type s) 1) of
                       Inl e \<Rightarrow> Inl e
                     | Inr p \<Rightarrow> Inr (sensitivity_lineloglog cal m (gas_type s) 0 * p))) of
           Inl e \<Rightarrow> (s, Inl e)
         | Inr rs_gas \<Rightarrow>
             (let rs_capped = (if rs_gas > air then air else rs_gas);
                  resistance_variation = air - rs_capped;
                  rs_var = air - resistance_variation;
                  rs = (if rs_var \<le> 0 then 0.01 else rs_var)
              in case previous_sensor_output s of
                   None \<Rightarrow> (s, Inl AttributeError)
                 | Some prev \<Rightarrow>
                     (let tau = (if rs < prev then tau_value cal m 0 0
                                 else tau_value cal m 0 1)
                      in if tau + dt = 0 then (s, Inl ZeroDivisionError)
                         else
                           (let alpha = dt / (tau + dt);
                                out = alpha * rs + (1 - alpha) * prev
                            in (s\<lparr>previous_sensor_output := Some out\<rparr>,
                                Inr (out * R0 cal m, rs)))))))"

subsection \<open>update\<close>

text \<open>The counters of the gas data iteration, stepped at the start of update.\<close>

definition advance_iterations :: "MOX \<Rightarrow> MOX" where
  "advance_iterations s =
     (if filament_iter s = iter_stop s \<and> update_iter s = updates_per_gas_iter s then
        s\<lparr>update_iter := 0, filament_iter := iter_start s\<rparr>
      else if update_iter s \<noteq> updates_per_gas_iter s then
        s\<lparr>update_iter := update_iter s + 1\<rparr>
      else
        s\<lparr>update_iter := 0, filament_iter := filament_iter s + 1\<rparr>)"

text \<open>
  The loop over the filaments, from the concentration summed so far: the sum at the end, or
  the sum at the raise with the exception.
\<close>

fun gas_conc_loop ::
  "EnvSpec \<Rightarrow> OccGrid \<Rightarrow> vec3 \<Rightarrow> GasDataHead \<Rightarrow> real \<Rightarrow> Filament list
     \<Rightarrow> real \<times> error option" where
  "gas_conc_loop env g loc head conc [] = (conc, None)"
| "gas_conc_loop env g loc head conc (filament # fils) =
     (case loc of (l0, l1, l2) \<Rightarrow>
        (let dist_SQR = (l0 - fil_x filament)\<^sup>2 + (l1 - fil_y filament)\<^sup>2
                        + (l2 - fil_z filament)\<^sup>2;
             limit_distance = fil_sigma filament * 5 / 100
         in if dist_SQR < limit_distance\<^sup>2 then
              (case check_env_for_obstacle3D env g loc
                      (fil_x filament, fil_y filament, fil_z filament) of
                 Inl e \<Rightarrow> (conc, Some e)
               | Inr visible \<Rightarrow>
                   if visible then
                     (case concentration_from_filament loc filament head of
                        Inl e \<Rightarrow> (conc, Some e)
                      | Inr ppm \<Rightarrow> gas_conc_loop env g loc head (conc + ppm) fils)
                   else gas_conc_loop env g loc head conc fils)
            else gas_conc_loop env g loc head conc fils))"

text \<open>The end of update: the sensor response, stored and returned.\<close>

definition respond ::
  "Calibration \<Rightarrow> real \<Rightarrow> MOX \<Rightarrow> event list \<Rightarrow> MOX \<times> event list \<times> (error + real list)" where
  "respond cal dt s evs =
     (case simulate_mox_as_line_loglog cal dt (gas_conc s) s of
        (s', Inl e) \<Rightarrow> (s', evs, Inl e)
      | (s', Inr (out, rs)) \<Rightarrow>
          (s'\<lparr>sensor_output := out, RS_R0 := rs, state := [out, gas_conc s', rs]\<rparr>,
           evs, Inr [out, gas_conc s', rs]))"

text \<open>
  The body of update at position \<open>loc\<close>: the object after the call, what the call did to the
  gas data directory, and the returned array or the exception.
\<close>

definition update ::
  "Calibration \<Rightarrow> GasDataDir \<Rightarrow> vec3 \<Rightarrow> real \<Rightarrow> MOX
     \<Rightarrow> MOX \<times> event list \<times> (error + real list)" where
  "update cal dir loc dt s =
     (let s1 = advance_iterations (s\<lparr>time_tot := time_tot s + dt\<rparr>) in
      if update_iter s1 = 0 then
        (case fil_npy dir (filament_iter s1) of
           None \<Rightarrow> (s1, [Load_fil (filament_iter s1)], Inl FileNotFoundError)
         | Some gas_data \<Rightarrow>
             (case head_npy dir (filament_iter s1) of
                None \<Rightarrow>
                  (s1, [Load_fil (filament_iter s1), Load_head (filament_iter s1)],
                   Inl FileNotFoundError)
              | Some gas_data_head \<Rightarrow>
                  (case gas_conc_loop (env_spec s1) (occ_grid s1) loc gas_data_head 0
                          gas_data of
                     (conc, Some e) \<Rightarrow>
                       (s1\<lparr>gas_conc := conc\<rparr>,
                        [Load_fil (filament_iter s1), Load_head (filament_iter s1),
                         Recompute], Inl e)
                   | (conc, None) \<Rightarrow>
                       respond cal dt (s1\<lparr>gas_conc := conc\<rparr>)
                         [Load_fil (filament_iter s1), Load_head (filament_iter s1),
                          Recompute])))
      else respond cal dt s1 [])"

text \<open>Successive calls of update, one per position and time step: the result of each.\<close>

fun ticks ::
  "Calibration \<Rightarrow> GasDataDir \<Rightarrow> (vec3 \<times> real) list \<Rightarrow> MOX
     \<Rightarrow> (MOX \<times> event list \<times> (error + real list)) list" where
  "ticks cal dir [] s = []"
| "ticks cal dir ((loc, dt) # ins) s =
     (let r = update cal dir loc dt s in r # ticks cal dir ins (fst r))"


subsection \<open>Auxiliary notions and sample data\<close>

text \<open>The two counters of the gas data iteration.\<close>

definition counters :: "MOX \<Rightarrow> int \<times> int" where
  "counters s = (filament_iter s, update_iter s)"

text \<open>
  The counters as a function of start, stop and updates per gas iteration, and the
  sequence of counters over a number of steps; both serve the proofs only.
\<close>

definition counter_step :: "int \<Rightarrow> int \<Rightarrow> int \<Rightarrow> int \<times> int \<Rightarrow> int \<times> int" where
  "counter_step a b c p =
     (if fst p = b \<and> snd p = c then (a, 0)
      else if snd p \<noteq> c then (fst p, snd p + 1)
      else (fst p + 1, 0))"

fun counter_seq :: "int \<Rightarrow> int \<Rightarrow> int \<Rightarrow> nat \<Rightarrow> int \<times> int \<Rightarrow> (int \<times> int) list" where
  "counter_seq a b c 0 p = []"
| "counter_seq a b c (Suc n) p =
     counter_step a b c p # counter_seq a b c n (counter_step a b c p)"

text \<open>The object after \<open>n\<close> calls of the sensor response with one time step and concentration.\<close>

fun responses :: "Calibration \<Rightarrow> real \<Rightarrow> real \<Rightarrow> nat \<Rightarrow> MOX \<Rightarrow> MOX" where
  "responses cal dt c 0 s = s"
| "responses cal dt c (Suc n) s =
     responses cal dt c n (fst (simulate_mox_as_line_loglog cal dt c s))"

text \<open>
  Sample data: a 2 x 2 x 2 occupancy array whose cells at x index 1 are occupied, a
  calibration with one curve (A = 1, B = -1), an empty gas data directory, and the sensor
  constructed from a configuration with iterations 300 to 305.
\<close>

definition example_grid :: OccGrid where
  "example_grid =
     \<lparr>dim_z = 2, dim_x = 2, dim_y = 2, voxel = (\<lambda>k i j. if i = 1 then 1 else 0)\<rparr>"

definition example_env :: EnvSpec where
  "example_env = default_env_spec\<lparr>cell_size := 1\<rparr>"

definition example_cal :: Calibration where
  "example_cal =
     \<lparr>R0 = (\<lambda>m. 50000),
      tau_value = (\<lambda>m g k. if k = 0 then 2 else 8),
      sensitivity_air = (\<lambda>m. 1),
      sensitivity_lineloglog = (\<lambda>m g k. if k = 0 then 1 else - 1)\<rparr>"

definition example_dir :: GasDataDir where
  "example_dir = \<lparr>fil_npy = (\<lambda>n. None), head_npy = (\<lambda>n. None)\<rparr>"

definition example_config :: Config where
  "example_config =
     \<lparr>cfg_env_spec = None, cfg_draw = None, cfg_sensor_model = None, cfg_gas_type = None,
      cfg_update_rate = None, cfg_gas_data_time_step = None,
      cfg_gas_data_start_iter = Some 300, cfg_gas_data_stop_iter = Some 305\<rparr>"

definition example_sensor :: MOX where
  "example_sensor =
     \<lparr>env_spec = default_env_spec, occ_grid = example_grid, iter_start = 300,
      iter_stop = 305, filament_iter = 300, update_iter = 0, update_rate = 4,
      gas_data_time_step = 0.5, updates_per_gas_iter = 1, sensor_model = 0, gas_type = 0,
      sensor_output = 0, gas_conc = 0, RS_R0 = 0, first_reading = True, time_tot = 0,
      draw_bool = False, previous_sensor_output = None, state = [0, 0, 0]\<rparr>"


text \<open>A gas data directory with one filament at the origin in every iteration.\<close>

definition example_gas_dir :: GasDataDir where
  "example_gas_dir =
     \<lparr>fil_npy = (\<lambda>n. Some [\<lparr>fil_id = 0, fil_x = 0, fil_y = 0, fil_z = 0, fil_sigma = 100\<rparr>]),
      head_npy = (\<lambda>n. Some \<lparr>filament_num_moles_of_gas = 1, num_moles_all_gases_in_cm3 = 1\<rparr>)\<rparr>"

text \<open>The sample sensor after its first reading.\<close>

definition tracking_sensor :: MOX where
  "tracking_sensor = example_sensor\<lparr>first_reading := False, previous_sensor_output := Some 1\<rparr>"

text \<open>
  The RS_R0 value that a call of the sensor response after the first computes from the
  concentration, before the filter; it serves the proofs only.
\<close>

definition rs_r0_target :: "Calibration \<Rightarrow> int \<Rightarrow> int \<Rightarrow> real \<Rightarrow> error + real" where
  "rs_r0_target cal m g c =
     (case (if c = 0 then Inr (sensitivity_air cal m)
            else (case math_pow c (sensitivity_lineloglog cal m g 1) of
                    Inl e \<Rightarrow> Inl e
                  | Inr p \<Rightarrow> Inr (sensitivity_lineloglog cal m g 0 * p))) of
        Inl e \<Rightarrow> Inl e
      | Inr rs_gas \<Rightarrow>
          (let air = sensitivity_air cal m;
               rs_capped = (if rs_gas > air then air else rs_gas);
               rs_var = air - (air - rs_capped)
           in Inr (if rs_var \<le> 0 then 0.01 else rs_var)))"

section \<open>Properties\<close>

subsection \<open>What the sensor response and update leave unchanged\<close>

lemma simulate_frame:
  "filament_iter (fst (simulate_mox_as_line_loglog cal dt c s)) = filament_iter s \<and>
   update_iter (fst (simulate_mox_as_line_loglog cal dt c s)) = update_iter s \<and>
   iter_start (fst (simulate_mox_as_line_loglog cal dt c s)) = iter_start s \<and>
   iter_stop (fst (simulate_mox_as_line_loglog cal dt c s)) = iter_stop s \<and>
   updates_per_gas_iter (fst (simulate_mox_as_line_loglog cal dt c s))
     = updates_per_gas_iter s \<and>
   gas_conc (fst (simulate_mox_as_line_loglog cal dt c s)) = gas_conc s"
  by (simp add: simulate_mox_as_line_loglog_def Let_def split: sum.splits option.splits)

lemma respond_frame:
  "filament_iter (fst (respond cal dt s evs)) = filament_iter s \<and>
   update_iter (fst (respond cal dt s evs)) = update_iter s \<and>
   iter_start (fst (respond cal dt s evs)) = iter_start s \<and>
   iter_stop (fst (respond cal dt s evs)) = iter_stop s \<and>
   updates_per_gas_iter (fst (respond cal dt s evs)) = updates_per_gas_iter s \<and>
   gas_conc (fst (respond cal dt s evs)) = gas_conc s"
  using simulate_frame [of cal dt "gas_conc s" s]
  by (auto simp: respond_def split: prod.splits sum.splits)



lemma update_counters:
  "filament_iter (fst (update cal dir loc dt s)) = filament_iter (advance_iterations s) \<and>
   update_iter (fst (update cal dir loc dt s)) = update_iter (advance_iterations s)"
  by (auto simp: update_def Let_def respond_frame advance_iterations_def
      split: option.splits prod.splits)

lemma update_params:
  "iter_start (fst (update cal dir loc dt s)) = iter_start s \<and>
   iter_stop (fst (update cal dir loc dt s)) = iter_stop s \<and>
   updates_per_gas_iter (fst (update cal dir loc dt s)) = updates_per_gas_iter s"
  by (auto simp: update_def Let_def respond_frame advance_iterations_def
      split: option.splits prod.splits)

lemma counters_advance:
  "counters (advance_iterations s) =
     (if filament_iter s = iter_stop s \<and> update_iter s = updates_per_gas_iter s
        then (iter_start s, 0)
      else if update_iter s \<noteq> updates_per_gas_iter s
        then (filament_iter s, update_iter s + 1)
      else (filament_iter s + 1, 0))"
  by (simp add: counters_def advance_iterations_def)

lemma counters_update:
  "counters (fst (update cal dir loc dt s)) = counters (advance_iterations s)"
  by (simp add: counters_def update_counters)

lemma counters_update_step:
  "counters (fst (update cal dir loc dt s)) =
     counter_step (iter_start s) (iter_stop s) (updates_per_gas_iter s) (counters s)"
  unfolding counters_update counters_advance counter_step_def
  by (simp add: counters_def)

lemma ticks_counter_seq:
  "map (\<lambda>r. counters (fst r)) (ticks cal dir ins s) =
     counter_seq (iter_start s) (iter_stop s) (updates_per_gas_iter s) (length ins)
       (counters s)"
proof (induction ins arbitrary: s)
  case Nil
  show ?case by simp
next
  case (Cons i ins)
  obtain loc dt where i: "i = (loc, dt)" by (cases i)
  show ?case
    by (simp add: i Let_def Cons.IH counters_update_step update_params)
qed

lemma example_sensor_init: "MOX_init example_config [] example_grid = Inr example_sensor"
  by (simp add: MOX_init_def example_config_def example_sensor_def config_get_def py_int_def)

subsection \<open>The iteration scheduler\<close>

text \<open>
  C3. Every call of update steps the counters (filament_iter, update_iter) by the
  three-case rule: at (iter_stop, updates_per_gas_iter) they become (iter_start, 0);
  otherwise, if update_iter differs from updates_per_gas_iter, update_iter is incremented
  and filament_iter is unchanged; otherwise they become (filament_iter + 1, 0). For a
  sensor constructed with iter_start = 300, iter_stop = 305 and updates_per_gas_iter = 1,
  the counters after each of twelve calls are (300,1), (301,0), (301,1), ..., (305,1),
  (300,0).
\<close>

theorem update_counters_three_case_rule:
  "counters (fst (update cal dir loc dt s)) =
     (if filament_iter s = iter_stop s \<and> update_iter s = updates_per_gas_iter s
        then (iter_start s, 0)
      else if update_iter s \<noteq> updates_per_gas_iter s
        then (filament_iter s, update_iter s + 1)
      else (filament_iter s + 1, 0))
   \<and> (MOX_init config files grid = Inr s0 \<longrightarrow> iter_start s0 = 300 \<longrightarrow> iter_stop s0 = 305
        \<longrightarrow> updates_per_gas_iter s0 = 1 \<longrightarrow> length ins = 12
        \<longrightarrow> map (\<lambda>r. counters (fst r)) (ticks cal dir ins s0) =
              [(300, 1), (301, 0), (301, 1), (302, 0), (302, 1), (303, 0), (303, 1),
               (304, 0), (304, 1), (305, 0), (305, 1), (300, 0)])"
proof (intro conjI impI)
  show "counters (fst (update cal dir loc dt s)) =
     (if filament_iter s = iter_stop s \<and> update_iter s = updates_per_gas_iter s
        then (iter_start s, 0)
      else if update_iter s \<noteq> updates_per_gas_iter s
        then (filament_iter s, update_iter s + 1)
      else (filament_iter s + 1, 0))"
    by (simp only: counters_update counters_advance)
next
  assume init: "MOX_init config files grid = Inr s0"
    and par: "iter_start s0 = 300" "iter_stop s0 = 305" "updates_per_gas_iter s0 = 1"
    and len: "length ins = 12"
  from init have "filament_iter s0 = iter_start s0 \<and> update_iter s0 = 0"
    by (auto simp: MOX_init_def Let_def split: sum.splits)
  with par have start: "counters s0 = (300, 0)"
    by (simp add: counters_def)
  have "counter_seq 300 305 1 12 (300, 0) =
     [(300, 1), (301, 0), (301, 1), (302, 0), (302, 1), (303, 0), (303, 1),
      (304, 0), (304, 1), (305, 0), (305, 1), (300, 0)]"
    by (simp add: numeral_eq_Suc counter_step_def)
  then show "map (\<lambda>r. counters (fst r)) (ticks cal dir ins s0) =
     [(300, 1), (301, 0), (301, 1), (302, 0), (302, 1), (303, 0), (303, 1),
      (304, 0), (304, 1), (305, 0), (305, 1), (300, 0)]"
    unfolding ticks_counter_seq by (simp add: par len start)
qed

theorem update_counters_three_case_rule_witness:
  "MOX_init example_config [] example_grid = Inr example_sensor
   \<and> iter_start example_sensor = 300 \<and> iter_stop example_sensor = 305
   \<and> updates_per_gas_iter example_sensor = 1
   \<and> length (replicate 12 ((0, 0, 0), 1 / 4 :: real)) = 12
   \<and> map (\<lambda>r. counters (fst r))
       (ticks example_cal example_dir (replicate 12 ((0, 0, 0), 1 / 4)) example_sensor) =
       [(300, 1), (301, 0), (301, 1), (302, 0), (302, 1), (303, 0), (303, 1),
        (304, 0), (304, 1), (305, 0), (305, 1), (300, 0)]"
  using update_counters_three_case_rule [of example_cal example_dir "(0, 0, 0)" "1 / 4"
      example_sensor example_config "[]" example_grid example_sensor
      "replicate 12 ((0, 0, 0), 1 / 4)"]
    example_sensor_init
  by (simp add: example_sensor_def)













subsection \<open>Bounds of the counters, and when the gas data is reloaded\<close>






subsection \<open>The first calls after construction\<close>


lemma example_sensor_fields:
  "iter_start example_sensor = 300" "iter_stop example_sensor = 305"
  "updates_per_gas_iter example_sensor = 1" "filament_iter example_sensor = 300"
  "update_iter example_sensor = 0" "first_reading example_sensor"
  "sensor_model example_sensor = 0" "gas_type example_sensor = 0"
  by (simp_all add: example_sensor_def)



subsection \<open>stop\<close>

lemma stop_fields:
  "filament_iter (stop s) = iter_start s \<and> sensor_output (stop s) = 0 \<and> gas_conc (stop s) = 0
   \<and> RS_R0 (stop s) = 0 \<and> first_reading (stop s) \<and> time_tot (stop s) = 0
   \<and> update_iter (stop s) = update_iter s"
  by (simp add: stop_def)

lemma fresh_tick:
  "update example_cal example_gas_dir (0, 0, 0) (1 / 4) example_sensor =
    (example_sensor\<lparr>time_tot := 1 / 4, update_iter := 1, previous_sensor_output := Some 1,
        first_reading := False, sensor_output := 50000, RS_R0 := 1, state := [50000, 0, 1]\<rparr>,
     [], Inr [50000, 0, 1])"
  by (simp add: update_def advance_iterations_def respond_def simulate_mox_as_line_loglog_def
      example_sensor_def example_cal_def Let_def)

lemma origin_visible:
  "check_env_for_obstacle3D default_env_spec example_grid (0, 0, 0) (0, 0, 0) = Inr True"
  by (simp add: check_env_for_obstacle3D_def samples_def norm_stacked_def sample_points_def
      linspace_def default_env_spec_def voxel_index_def grid_lookup_def axis_index_def
      example_grid_def)

lemma stopped_tick:
  "snd (update example_cal example_gas_dir (0, 0, 0) (1 / 4)
     (stop (fst (update example_cal example_gas_dir (0, 0, 0) (1 / 4) example_sensor)))) =
    ([Load_fil 301, Load_head 301, Recompute], Inr [50000, 1 / sqrt (8 * pi ^ 3), 1])"
  unfolding fresh_tick
  by (simp add: update_def advance_iterations_def respond_def simulate_mox_as_line_loglog_def
      example_sensor_def example_cal_def Let_def stop_def example_gas_dir_def origin_visible
      concentration_from_filament_def)

text \<open>
  C2 (the code departs from it). stop resets filament_iter, the three outputs, first_reading
  and the elapsed time, but leaves update_iter as it is. For the sample sensor, stopped after
  one call of update, update_iter is 1 and not 0; the next call of update then loads
  iteration 301 and returns its concentration, where the first call on the freshly
  constructed sensor reads no file and returns concentration 0.
\<close>

theorem stop_keeps_update_iter:
  "update_iter (stop s) = update_iter s
   \<and> update_iter (stop (fst (update example_cal example_gas_dir (0, 0, 0) (1 / 4) example_sensor)))
       = 1
   \<and> snd (update example_cal example_gas_dir (0, 0, 0) (1 / 4) example_sensor)
       = ([], Inr [50000, 0, 1])
   \<and> snd (update example_cal example_gas_dir (0, 0, 0) (1 / 4)
        (stop (fst (update example_cal example_gas_dir (0, 0, 0) (1 / 4) example_sensor))))
       = ([Load_fil 301, Load_head 301, Recompute], Inr [50000, 1 / sqrt (8 * pi ^ 3), 1])"
  using stopped_tick by (simp add: fresh_tick stop_def)

subsection \<open>The number of sample points of the visibility check\<close>

text \<open>
  C1 (the code departs from it). The number of sample points is computed from the norm of
  the two end points stacked, not from the distance between them: for the points (3,0,0)
  and (4,0,0), at distance 1, and a cell size of 1 the code takes 6 sample points, where
  ceil(distance / cell_size) + 1 is 2.
\<close>

theorem sample_count_uses_stacked_norm:
  "samples example_env (3, 0, 0) (4, 0, 0) = Inr 6
   \<and> \<lceil>sqrt ((3 - 4)\<^sup>2 + (0 - 0)\<^sup>2 + (0 - 0)\<^sup>2) / cell_size example_env\<rceil> + 1 = (2 :: int)"
proof -
  have "sqrt 25 = (5 :: real)" using real_sqrt_abs [of 5] by simp
  then show ?thesis
    by (simp add: samples_def norm_stacked_def example_env_def default_env_spec_def)
qed


subsection \<open>The first sensor response\<close>

text \<open>
  C5 as stated does not hold for the returned pair: the first component is scaled by
  R0. With R0 = 50000 and a sensitivity in air of 1 the first call returns (50000, 1).
\<close>

theorem first_response_counterexample:
  "first_reading example_sensor
   \<and> snd (simulate_mox_as_line_loglog example_cal (1 / 4) 0 example_sensor)
       \<noteq> Inr (sensitivity_air example_cal (sensor_model example_sensor),
               sensitivity_air example_cal (sensor_model example_sensor))"
  by (simp add: simulate_mox_as_line_loglog_def example_sensor_def example_cal_def Let_def)

text \<open>
  C5 (amended). On the first call, whatever the concentration and the time step, the
  sensor response returns (sensitivity_air[model] * R0[model], sensitivity_air[model]),
  stores sensitivity_air[model] as previous_sensor_output and clears first_reading.
\<close>

theorem first_response:
  "first_reading s \<Longrightarrow>
     simulate_mox_as_line_loglog cal dt c s =
       (s\<lparr>previous_sensor_output := Some (sensitivity_air cal (sensor_model s)),
          first_reading := False\<rparr>,
        Inr (sensitivity_air cal (sensor_model s) * R0 cal (sensor_model s),
             sensitivity_air cal (sensor_model s)))"
  by (simp add: simulate_mox_as_line_loglog_def Let_def)

theorem first_response_witness:
  "first_reading example_sensor
   \<and> simulate_mox_as_line_loglog example_cal (1 / 4) 7 example_sensor =
       (example_sensor\<lparr>previous_sensor_output := Some 1, first_reading := False\<rparr>,
        Inr (50000, 1))"
  using first_response [of example_sensor example_cal "1 / 4" 7]
  by (simp add: example_sensor_fields example_cal_def)

subsection \<open>Bounds of the returned RS_R0\<close>





subsection \<open>Filaments out of range\<close>





subsection \<open>Voxel indices outside the occupancy array\<close>













subsection \<open>The low-pass filter under a constant concentration\<close>

lemma simulate_tracking:
  assumes "\<not> first_reading s"
  shows "simulate_mox_as_line_loglog cal dt c s =
     (case rs_r0_target cal (sensor_model s) (gas_type s) c of
        Inl e \<Rightarrow> (s, Inl e)
      | Inr rs \<Rightarrow>
          (case previous_sensor_output s of
             None \<Rightarrow> (s, Inl AttributeError)
           | Some prev \<Rightarrow>
               (let tau = (if rs < prev then tau_value cal (sensor_model s) 0 0
                           else tau_value cal (sensor_model s) 0 1)
                in if tau + dt = 0 then (s, Inl ZeroDivisionError)
                   else (s\<lparr>previous_sensor_output :=
                              Some (dt / (tau + dt) * rs + (1 - dt / (tau + dt)) * prev)\<rparr>,
                         Inr ((dt / (tau + dt) * rs + (1 - dt / (tau + dt)) * prev)
                                * R0 cal (sensor_model s), rs)))))"
proof -
  have pre: "previous_sensor_output s = None \<or> (\<exists>p. previous_sensor_output s = Some p)"
    by (cases "previous_sensor_output s") simp_all
  show ?thesis
  proof (cases "c = 0")
    case True
    with assms pre show ?thesis
      by (auto simp: simulate_mox_as_line_loglog_def rs_r0_target_def Let_def)
  next
    case False
    show ?thesis
    proof (cases "math_pow c (sensitivity_lineloglog cal (sensor_model s) (gas_type s) 1)")
      case (Inl e)
      with assms False show ?thesis
        by (simp add: simulate_mox_as_line_loglog_def rs_r0_target_def Let_def)
    next
      case (Inr pw)
      with assms False pre show ?thesis
        by (auto simp: simulate_mox_as_line_loglog_def rs_r0_target_def Let_def)
    qed
  qed
qed

lemma tracking_target:
  assumes "\<not> first_reading s"
    and "snd (simulate_mox_as_line_loglog cal dt c s) = Inr (out, rs)"
  shows "rs_r0_target cal (sensor_model s) (gas_type s) c = Inr rs"
  using assms(2) unfolding simulate_tracking [OF assms(1)]
  by (simp add: Let_def split: sum.splits option.splits if_splits)

lemma tracking_step:
  assumes "rs_r0_target cal (sensor_model s) (gas_type s) c = Inr rs"
    and "\<not> first_reading s" and "previous_sensor_output s = Some p"
    and "tau = (if rs < p then tau_value cal (sensor_model s) 0 0
                else tau_value cal (sensor_model s) 0 1)"
    and "tau + dt \<noteq> 0"
  shows "simulate_mox_as_line_loglog cal dt c s =
     (s\<lparr>previous_sensor_output := Some (dt / (tau + dt) * rs + (1 - dt / (tau + dt)) * p)\<rparr>,
      Inr ((dt / (tau + dt) * rs + (1 - dt / (tau + dt)) * p) * R0 cal (sensor_model s), rs))"
  unfolding simulate_tracking [OF assms(2)]
  using assms(1,3,4,5) by (simp add: Let_def)


lemma responses_Suc:
  "responses cal dt c (Suc n) s
     = fst (simulate_mox_as_line_loglog cal dt c (responses cal dt c n s))"
  by (induction n arbitrary: s) simp_all

lemma alpha_bounds:
  assumes "0 < dt" "0 < (tau :: real)"
  shows "0 < dt / (tau + dt) \<and> dt / (tau + dt) < 1"
  using assms by simp

lemma responses_tracking:
  assumes tgt: "rs_r0_target cal (sensor_model s) (gas_type s) c = Inr rs"
    and nf: "\<not> first_reading s" and prev: "previous_sensor_output s = Some p"
    and dt: "0 < dt" and t0: "0 < tau_value cal (sensor_model s) 0 0"
    and t1: "0 < tau_value cal (sensor_model s) 0 1"
    and tau: "tau = (if rs < p then tau_value cal (sensor_model s) 0 0
                     else tau_value cal (sensor_model s) 0 1)"
  shows "\<not> first_reading (responses cal dt c n s)
       \<and> sensor_model (responses cal dt c n s) = sensor_model s
       \<and> gas_type (responses cal dt c n s) = gas_type s
       \<and> previous_sensor_output (responses cal dt c n s)
           = Some (rs + (1 - dt / (tau + dt)) ^ n * (p - rs))"
proof (induction n)
  case 0
  show ?case using nf prev by simp
next
  case (Suc n)
  let ?s = "responses cal dt c n s"
  let ?a = "dt / (tau + dt)"
  let ?q = "rs + (1 - ?a) ^ n * (p - rs)"
  from tau t0 t1 have tpos: "0 < tau" by simp
  from alpha_bounds [OF dt tpos] have a: "0 < ?a" "?a < 1" by simp_all
  then have pw: "0 < (1 - ?a) ^ n" by simp
  have "\<And>k :: real. 0 < k \<Longrightarrow> (rs < rs + k * (p - rs)) = (rs < p)"
    by (simp add: zero_less_mult_iff)
  from this [OF pw] have sign: "rs < ?q \<longleftrightarrow> rs < p" .
  from Suc.IH have tgt': "rs_r0_target cal (sensor_model ?s) (gas_type ?s) c = Inr rs"
    and nf': "\<not> first_reading ?s" and prev': "previous_sensor_output ?s = Some ?q"
    and m: "sensor_model ?s = sensor_model s" and g: "gas_type ?s = gas_type s"
    using tgt by simp_all
  have tau': "tau = (if rs < ?q then tau_value cal (sensor_model ?s) 0 0
                     else tau_value cal (sensor_model ?s) 0 1)"
    using tau sign m by simp
  from tpos dt have nz: "tau + dt \<noteq> 0" by simp
  note step = tracking_step [OF tgt' nf' prev' tau' nz]
  have "\<And>a k :: real. a * rs + (1 - a) * (rs + k * (p - rs)) = rs + ((1 - a) * k) * (p - rs)"
    by (simp add: algebra_simps)
  then have alg: "?a * rs + (1 - ?a) * ?q = rs + (1 - ?a) ^ Suc n * (p - rs)"
    by (simp only: power_Suc)
  show ?case
    unfolding responses_Suc step using nf' m g alg by simp
qed


lemma responses_output:
  assumes tgt: "rs_r0_target cal (sensor_model s) (gas_type s) c = Inr rs"
    and nf: "\<not> first_reading s" and prev: "previous_sensor_output s = Some p"
    and dt: "0 < dt" and t0: "0 < tau_value cal (sensor_model s) 0 0"
    and t1: "0 < tau_value cal (sensor_model s) 0 1"
    and tau: "tau = (if rs < p then tau_value cal (sensor_model s) 0 0
                     else tau_value cal (sensor_model s) 0 1)"
  shows "snd (simulate_mox_as_line_loglog cal dt c (responses cal dt c n s))
           = Inr ((rs + (1 - dt / (tau + dt)) ^ Suc n * (p - rs)) * R0 cal (sensor_model s), rs)"
proof -
  note inv = responses_tracking [OF tgt nf prev dt t0 t1 tau, of n]
  let ?s = "responses cal dt c n s"
  from inv have nf': "\<not> first_reading ?s" by simp
  from tau t0 t1 have tpos: "0 < tau" by simp
  from alpha_bounds [OF dt tpos] have a: "0 < dt / (tau + dt)" "dt / (tau + dt) < 1" by simp_all
  then have pw: "0 < (1 - dt / (tau + dt)) ^ n" by simp
  have "\<And>k :: real. 0 < k \<Longrightarrow> (rs < rs + k * (p - rs)) = (rs < p)"
    by (simp add: zero_less_mult_iff)
  from this [OF pw] have sign: "rs < rs + (1 - dt / (tau + dt)) ^ n * (p - rs) \<longleftrightarrow> rs < p" .
  from inv tgt have tgt': "rs_r0_target cal (sensor_model ?s) (gas_type ?s) c = Inr rs"
    and prev': "previous_sensor_output ?s = Some (rs + (1 - dt / (tau + dt)) ^ n * (p - rs))"
    and m: "sensor_model ?s = sensor_model s"
    by simp_all
  have tau': "tau = (if rs < rs + (1 - dt / (tau + dt)) ^ n * (p - rs)
                       then tau_value cal (sensor_model ?s) 0 0
                     else tau_value cal (sensor_model ?s) 0 1)"
    using tau sign m by simp
  from tpos dt have nz: "tau + dt \<noteq> 0" by simp
  note step = tracking_step [OF tgt' nf' prev' tau' nz]
  have "\<And>a k :: real. a * rs + (1 - a) * (rs + k * (p - rs)) = rs + ((1 - a) * k) * (p - rs)"
    by (simp add: algebra_simps)
  then have alg: "dt / (tau + dt) * rs
        + (1 - dt / (tau + dt)) * (rs + (1 - dt / (tau + dt)) ^ n * (p - rs))
      = rs + (1 - dt / (tau + dt)) ^ Suc n * (p - rs)"
    by (simp only: power_Suc)
  show ?thesis unfolding step using alg m by simp
qed

lemma geometric_facts:
  fixes a d rs :: real
  assumes "0 < a" "a < 1"
  shows "(rs + (1 - a) ^ (n + 2) * d) - (rs + (1 - a) ^ (n + 1) * d)
           = (1 - a) * ((rs + (1 - a) ^ (n + 1) * d) - (rs + (1 - a) ^ n * d))"
    and "\<bar>(rs + (1 - a) ^ Suc n * d) - rs\<bar> \<le> \<bar>(rs + (1 - a) ^ n * d) - rs\<bar>"
    and "0 \<le> d \<Longrightarrow> rs \<le> rs + (1 - a) ^ Suc n * d
           \<and> rs + (1 - a) ^ Suc n * d \<le> rs + (1 - a) ^ n * d"
    and "d \<le> 0 \<Longrightarrow> rs + (1 - a) ^ n * d \<le> rs + (1 - a) ^ Suc n * d
           \<and> rs + (1 - a) ^ Suc n * d \<le> rs"
    and "(\<lambda>k. rs + (1 - a) ^ k * d) \<longlonglongrightarrow> rs"
proof -
  define k where "k = (1 - a) ^ n"
  from assms have k: "0 < k" by (simp add: k_def)
  have p1: "(1 - a) ^ (n + 1) = (1 - a) * k" and p2: "(1 - a) ^ (n + 2) = (1 - a) * ((1 - a) * k)"
    and p3: "(1 - a) ^ Suc n = (1 - a) * k"
    by (simp_all add: k_def)
  show "(rs + (1 - a) ^ (n + 2) * d) - (rs + (1 - a) ^ (n + 1) * d)
           = (1 - a) * ((rs + (1 - a) ^ (n + 1) * d) - (rs + (1 - a) ^ n * d))"
    unfolding p1 p2 k_def [symmetric] by (simp add: algebra_simps)
  have "\<bar>(1 - a) * k * d\<bar> = (1 - a) * \<bar>k * d\<bar>"
    using assms by (simp add: abs_mult)
  also have "\<dots> \<le> 1 * \<bar>k * d\<bar>"
    using assms by (intro mult_right_mono) simp_all
  finally show "\<bar>(rs + (1 - a) ^ Suc n * d) - rs\<bar> \<le> \<bar>(rs + (1 - a) ^ n * d) - rs\<bar>"
    unfolding p3 k_def [symmetric] by simp
  show "rs \<le> rs + (1 - a) ^ Suc n * d \<and> rs + (1 - a) ^ Suc n * d \<le> rs + (1 - a) ^ n * d"
    if "0 \<le> d"
  proof -
    from that k have kd: "0 \<le> k * d" by simp
    with assms have "0 \<le> (1 - a) * (k * d)" by simp
    moreover from kd assms have "(1 - a) * (k * d) \<le> 1 * (k * d)"
      by (intro mult_right_mono) simp_all
    ultimately show ?thesis unfolding p3 k_def [symmetric] by (simp add: mult.assoc)
  qed
  show "rs + (1 - a) ^ n * d \<le> rs + (1 - a) ^ Suc n * d \<and> rs + (1 - a) ^ Suc n * d \<le> rs"
    if "d \<le> 0"
  proof -
    from that k have kd: "k * d \<le> 0" by (simp add: mult_le_0_iff)
    with assms have "(1 - a) * (k * d) \<le> 0" by (simp add: mult_le_0_iff)
    moreover from kd assms have "1 * (k * d) \<le> (1 - a) * (k * d)"
      by (intro mult_right_mono_neg) simp_all
    ultimately show ?thesis unfolding p3 k_def [symmetric] by (simp add: mult.assoc)
  qed
  from assms have lim: "(\<lambda>k. (1 - a) ^ k) \<longlonglongrightarrow> 0"
    by (intro LIMSEQ_realpow_zero) simp_all
  have "(\<lambda>k. rs + (1 - a) ^ k * d) \<longlonglongrightarrow> rs + 0 * d"
    by (rule tendsto_add [OF tendsto_const tendsto_mult_right [OF lim]])
  then show "(\<lambda>k. rs + (1 - a) ^ k * d) \<longlonglongrightarrow> rs" by simp
qed


text \<open>
  C6. Let the sensor be past its first reading with previous output p, and let a call with
  time step dt > 0 and concentration c return the RS_R0 value rs, the time constants of the
  model being positive. With alpha = dt / (tau + dt), where tau is the rise constant if
  rs < p and the decay constant otherwise, the filtered output after n further calls with
  the same dt and c is q n = rs + (1 - alpha)^n * (p - rs), and each call returns
  (q (n + 1) * R0[model], rs). Hence the step from one output to the next shrinks by
  exactly the factor 1 - alpha, the distance to rs never grows, the outputs move toward
  rs from the side p is on without crossing it, and they converge to rs. Floats are taken
  as real numbers.
\<close>

theorem filtered_output_converges:
  fixes q :: "nat \<Rightarrow> real"
  assumes nf: "\<not> first_reading s" and prev: "previous_sensor_output s = Some p"
    and dt: "0 < dt" and t0: "0 < tau_value cal (sensor_model s) 0 0"
    and t1: "0 < tau_value cal (sensor_model s) 0 1"
    and ret: "snd (simulate_mox_as_line_loglog cal dt c s) = Inr (out, rs)"
    and alpha: "alpha = dt / ((if rs < p then tau_value cal (sensor_model s) 0 0
                               else tau_value cal (sensor_model s) 0 1) + dt)"
    and q: "q = (\<lambda>k. rs + (1 - alpha) ^ k * (p - rs))"
  shows "0 < alpha \<and> alpha < 1
       \<and> previous_sensor_output (responses cal dt c n s) = Some (q n)
       \<and> snd (simulate_mox_as_line_loglog cal dt c (responses cal dt c n s))
           = Inr (q (Suc n) * R0 cal (sensor_model s), rs)
       \<and> q (n + 2) - q (n + 1) = (1 - alpha) * (q (n + 1) - q n)
       \<and> \<bar>q (Suc n) - rs\<bar> \<le> \<bar>q n - rs\<bar>
       \<and> (rs \<le> p \<longrightarrow> rs \<le> q (Suc n) \<and> q (Suc n) \<le> q n)
       \<and> (p \<le> rs \<longrightarrow> q n \<le> q (Suc n) \<and> q (Suc n) \<le> rs)
       \<and> q \<longlonglongrightarrow> rs"
proof -
  define tau where "tau = (if rs < p then tau_value cal (sensor_model s) 0 0
                           else tau_value cal (sensor_model s) 0 1)"
  have a_eq: "alpha = dt / (tau + dt)" by (simp add: alpha tau_def)
  from t0 t1 have tpos: "0 < tau" by (simp add: tau_def)
  from alpha_bounds [OF dt tpos] have a: "0 < alpha" "alpha < 1" by (simp_all add: a_eq)
  note tgt = tracking_target [OF nf ret]
  from responses_tracking [OF tgt nf prev dt t0 t1 tau_def, of n]
  have c1: "previous_sensor_output (responses cal dt c n s) = Some (q n)"
    by (simp add: q a_eq)
  from responses_output [OF tgt nf prev dt t0 t1 tau_def, of n]
  have c2: "snd (simulate_mox_as_line_loglog cal dt c (responses cal dt c n s))
           = Inr (q (Suc n) * R0 cal (sensor_model s), rs)"
    by (simp add: q a_eq)
  note g = geometric_facts [OF a, where rs = rs and d = "p - rs"]
  have c3: "q (n + 2) - q (n + 1) = (1 - alpha) * (q (n + 1) - q n)"
    unfolding q by (rule g(1))
  have c4: "\<bar>q (Suc n) - rs\<bar> \<le> \<bar>q n - rs\<bar>"
    unfolding q by (rule g(2))
  have c5: "rs \<le> p \<longrightarrow> rs \<le> q (Suc n) \<and> q (Suc n) \<le> q n"
    unfolding q using g(3) [of n] by simp
  have c6: "p \<le> rs \<longrightarrow> q n \<le> q (Suc n) \<and> q (Suc n) \<le> rs"
    unfolding q using g(4) [of n] by simp
  have c7: "q \<longlonglongrightarrow> rs"
    unfolding q by (rule g(5))
  from a c1 c2 c3 c4 c5 c6 c7 show ?thesis by blast
qed

theorem filtered_output_converges_witness:
  "\<not> first_reading tracking_sensor \<and> previous_sensor_output tracking_sensor = Some 1
   \<and> (0 :: real) < 1 / 4
   \<and> 0 < tau_value example_cal (sensor_model tracking_sensor) 0 0
   \<and> 0 < tau_value example_cal (sensor_model tracking_sensor) 0 1
   \<and> snd (simulate_mox_as_line_loglog example_cal (1 / 4) 1000 tracking_sensor)
       = Inr (44450, 1 / 1000)
   \<and> previous_sensor_output (responses example_cal (1 / 4) 1000 1 tracking_sensor)
       = Some (1 / 1000 + (1 - 1 / 9) ^ 1 * (1 - 1 / 1000))
   \<and> (\<lambda>k. 1 / 1000 + (1 - 1 / 9) ^ k * (1 - 1 / 1000 :: real)) \<longlonglongrightarrow> 1 / 1000"
proof -
  have nf: "\<not> first_reading tracking_sensor"
    and prev: "previous_sensor_output tracking_sensor = Some 1"
    and m: "sensor_model tracking_sensor = 0"
    by (simp_all add: tracking_sensor_def example_sensor_def)
  have dt: "(0 :: real) < 1 / 4" by simp
  have t0: "0 < tau_value example_cal (sensor_model tracking_sensor) 0 0"
    and t1: "0 < tau_value example_cal (sensor_model tracking_sensor) 0 1"
    by (simp_all add: example_cal_def)
  have ret: "snd (simulate_mox_as_line_loglog example_cal (1 / 4) 1000 tracking_sensor)
       = Inr (44450, 1 / 1000)"
    by (simp add: simulate_mox_as_line_loglog_def tracking_sensor_def example_sensor_def
      example_cal_def Let_def math_pow_def powr_neg_one)
  have alpha: "(1 / 9 :: real) = 1 / 4 / ((if (1 / 1000 :: real) < 1
        then tau_value example_cal (sensor_model tracking_sensor) 0 0
        else tau_value example_cal (sensor_model tracking_sensor) 0 1) + 1 / 4)"
    by (simp add: example_cal_def)
  from filtered_output_converges [OF nf prev dt t0 t1 ret alpha refl, of 1]
    nf prev t0 t1 ret
  show ?thesis by simp
qed

end
